theory Spec2Isabelle
  imports Main "HOL-Library.Word" "HOL-Library.AList" "HOL-Library.Multiset"
begin

unbundle bit_operations_syntax

chapter \<open>The job-to-framework translation layer of the REST server\<close>

section \<open>JavaScript strings and buffers\<close>

text \<open>
  A JavaScript string is a sequence of UTF-16 code units and a Node \<open>Buffer\<close> a sequence
  of bytes. String literals of the source are written \<open>js ''...''\<close>; every literal of the
  source is ASCII, so each character is one code unit.
\<close>

type_synonym jsstring = "16 word list"
type_synonym buffer = "8 word list"

definition js :: "string \<Rightarrow> jsstring" where
  "js s = map (\<lambda>c. of_nat (of_char c)) s"

text \<open>\<open>s.startsWith(p)\<close>, \<open>s.includes(c)\<close> for a one-unit \<open>c\<close>, and \<open>s.replace(/^p/g, '')\<close>
  for a literal \<open>p\<close>: the anchored pattern matches at position 0 only, so at most one
  occurrence is removed.\<close>

definition startsWith :: "jsstring \<Rightarrow> jsstring \<Rightarrow> bool" where
  "startsWith s p = (take (length p) s = p)"

definition str_includes :: "jsstring \<Rightarrow> 16 word \<Rightarrow> bool" where
  "str_includes s c = (c \<in> set s)"

definition replace_prefix :: "jsstring \<Rightarrow> jsstring \<Rightarrow> jsstring" where
  "replace_prefix p s = (if startsWith s p then drop (length p) s else s)"

text \<open>
  \<open>toLowerCase\<close> and \<open>toUpperCase\<close> follow the Unicode case tables, which are not part of
  the repository. On a string of ASCII code units only they change the letters
  \<open>A-Z\<close> / \<open>a-z\<close> and nothing else; on any other string the result is whatever the
  table function given as first argument returns.
\<close>

definition isAscii :: "16 word \<Rightarrow> bool" where
  "isAscii c = (c < 0x80)"

definition asciiLower :: "16 word \<Rightarrow> 16 word" where
  "asciiLower c = (if 0x41 \<le> c \<and> c \<le> 0x5A then c + 0x20 else c)"

definition asciiUpper :: "16 word \<Rightarrow> 16 word" where
  "asciiUpper c = (if 0x61 \<le> c \<and> c \<le> 0x7A then c - 0x20 else c)"

definition toLowerCase :: "(jsstring \<Rightarrow> jsstring) \<Rightarrow> jsstring \<Rightarrow> jsstring" where
  "toLowerCase unicodeLower s =
     (if list_all isAscii s then map asciiLower s else unicodeLower s)"

definition toUpperCase :: "(jsstring \<Rightarrow> jsstring) \<Rightarrow> jsstring \<Rightarrow> jsstring" where
  "toUpperCase unicodeUpper s =
     (if list_all isAscii s then map asciiUpper s else unicodeUpper s)"

text \<open>\<open>Buffer.from(s)\<close>: the UTF-8 encoding of the code units. \<open>utf8_bytes\<close> encodes one
  code point. A high surrogate followed by a low surrogate is one code point of four
  bytes; a surrogate on its own is written as U+FFFD (\<open>EF BF BD\<close>).\<close>

definition isHighSurrogate :: "16 word \<Rightarrow> bool" where
  "isHighSurrogate c = (0xD800 \<le> c \<and> c \<le> 0xDBFF)"

definition isLowSurrogate :: "16 word \<Rightarrow> bool" where
  "isLowSurrogate c = (0xDC00 \<le> c \<and> c \<le> 0xDFFF)"

definition utf8_bytes :: "nat \<Rightarrow> nat list" where
  "utf8_bytes n =
     (if n < 0x80 then [n]
      else if n < 0x800 then [0xC0 + n div 64, 0x80 + n mod 64]
      else if 0xD800 \<le> n \<and> n \<le> 0xDFFF then [0xEF, 0xBF, 0xBD]
      else if n < 0x10000 then
        [0xE0 + n div 4096, 0x80 + n div 64 mod 64, 0x80 + n mod 64]
      else [0xF0 + n div 262144, 0x80 + n div 4096 mod 64, 0x80 + n div 64 mod 64,
            0x80 + n mod 64])"

definition utf8_unit :: "16 word \<Rightarrow> buffer" where
  "utf8_unit c = map of_nat (utf8_bytes (unat c))"

definition utf8_pair :: "16 word \<Rightarrow> 16 word \<Rightarrow> buffer" where
  "utf8_pair hi lo =
     map of_nat (utf8_bytes (0x10000 + (unat hi - 0xD800) * 1024 + (unat lo - 0xDC00)))"

fun utf8_encode :: "jsstring \<Rightarrow> buffer" where
  "utf8_encode [] = []"
| "utf8_encode [c] = utf8_unit c"
| "utf8_encode (c # d # ds) =
     (if isHighSurrogate c \<and> isLowSurrogate d then utf8_pair c d @ utf8_encode ds
      else utf8_unit c @ utf8_encode (d # ds))"

text \<open>\<open>buf.toString('hex')\<close>: two lower-case hexadecimal digits per byte.\<close>

definition hexDigit :: "nat \<Rightarrow> 16 word" where
  "hexDigit n = of_nat (if n < 10 then 0x30 + n else 0x57 + n)"

definition toString_hex :: "buffer \<Rightarrow> jsstring" where
  "toString_hex buf = concat (map (\<lambda>b. [hexDigit (unat b div 16), hexDigit (unat b mod 16)]) buf)"

text \<open>\<open>Buffer.from(s, 'hex')\<close>: one byte per pair of hexadecimal digits (either case);
  decoding stops at the first pair that is not hexadecimal, and a last digit without a
  partner is dropped.\<close>

definition hexValue :: "16 word \<Rightarrow> nat option" where
  "hexValue c =
     (let n = unat c in
      if 0x30 \<le> n \<and> n \<le> 0x39 then Some (n - 0x30)
      else if 0x61 \<le> n \<and> n \<le> 0x66 then Some (n - 0x57)
      else if 0x41 \<le> n \<and> n \<le> 0x46 then Some (n - 0x37)
      else None)"

fun from_hex :: "jsstring \<Rightarrow> buffer" where
  "from_hex (a # b # rest) =
     (case (hexValue a, hexValue b) of
        (Some h, Some l) \<Rightarrow> of_nat (16 * h + l) # from_hex rest
      | _ \<Rightarrow> [])"
| "from_hex _ = []"

text \<open>\<open>buf.toString('ascii')\<close>: one code unit per byte, the byte's high bit cleared.\<close>

definition toString_ascii :: "buffer \<Rightarrow> jsstring" where
  "toString_ascii buf = map (\<lambda>b. of_nat (unat b mod 128)) buf"

text \<open>
  \<open>s.split(/~(.+)/)\<close>. The pattern matches at a \<open>~\<close> that is followed by at least one
  code unit other than a line terminator (\<open>.\<close> excludes LF, CR, U+2028 and U+2029), and
  the group takes the longest run of such units. \<open>split\<close> emits the piece before each
  match and the group of the match, scans on after the match, and ends with the rest of
  the string. \<open>at_index xs i\<close> is \<open>xs[i]\<close>, \<open>None\<close> standing for \<open>undefined\<close>.
\<close>

definition isLineTerminator :: "16 word \<Rightarrow> bool" where
  "isLineTerminator c = (c = 0x0A \<or> c = 0x0D \<or> c = 0x2028 \<or> c = 0x2029)"

definition dot_run :: "jsstring \<Rightarrow> jsstring" where
  "dot_run s = takeWhile (\<lambda>d. \<not> isLineTerminator d) s"

definition after_dot_run :: "jsstring \<Rightarrow> jsstring" where
  "after_dot_run s = dropWhile (\<lambda>d. \<not> isLineTerminator d) s"

function split_tilde_from :: "jsstring \<Rightarrow> jsstring \<Rightarrow> jsstring list" where
  "split_tilde_from piece [] = [piece]"
| "split_tilde_from piece (c # cs) =
     (if c = 0x7E \<and> dot_run cs \<noteq> []
      then piece # dot_run cs # split_tilde_from [] (after_dot_run cs)
      else split_tilde_from (piece @ [c]) cs)"
  by pat_completeness auto
termination
  by (relation "measure (\<lambda>(piece, s). length s)")
     (auto simp: after_dot_run_def length_dropWhile_le le_imp_less_Suc)

definition split_tilde :: "jsstring \<Rightarrow> jsstring list" where
  "split_tilde s = split_tilde_from [] s"

definition at_index :: "'a list \<Rightarrow> nat \<Rightarrow> 'a option" where
  "at_index xs i = (if i < length xs then Some (xs ! i) else None)"

section \<open>Name codec\<close>

definition isLowerAlnum :: "16 word \<Rightarrow> bool" where
  "isLowerAlnum c = ((0x61 \<le> c \<and> c \<le> 0x7A) \<or> (0x30 \<le> c \<and> c \<le> 0x39))"

definition convertName :: "(jsstring \<Rightarrow> jsstring) \<Rightarrow> jsstring \<Rightarrow> jsstring" where
  "convertName unicodeLower name = filter isLowerAlnum (toLowerCase unicodeLower name)"

definition encodeName :: "(jsstring \<Rightarrow> jsstring) \<Rightarrow> jsstring \<Rightarrow> jsstring" where
  "encodeName unicodeLower name =
     (if startsWith name (js ''unknown'') \<or> \<not> str_includes name 0x7E
      then convertName unicodeLower (replace_prefix (js ''unknown'') name)
      else js ''hex'' @ toString_hex (utf8_encode name))"

definition decodeName :: "jsstring \<Rightarrow> jsstring option" where
  "decodeName name =
     (if startsWith name (js ''hex'')
      then at_index (split_tilde (toString_ascii (from_hex (replace_prefix (js ''hex'') name)))) 1
      else Some name)"

section \<open>State mapper\<close>

text \<open>The exit code is a number or \<open>null\<close> (\<open>None\<close>); \<open>exitCode === 0\<close> holds for the
  number 0 only.\<close>

definition convertState :: "jsstring \<Rightarrow> int option \<Rightarrow> jsstring" where
  "convertState state exitCode =
     (if state = js ''AttemptCreationPending'' \<or> state = js ''AttemptCreationRequested''
         \<or> state = js ''AttemptPreparing'' then js ''WAITING''
      else if state = js ''AttemptRunning'' then js ''RUNNING''
      else if state = js ''AttemptDeletionPending'' \<or> state = js ''AttemptDeletionRequested''
         \<or> state = js ''AttemptDeleting'' \<or> state = js ''AttemptCompleted'' then js ''WAITING''
      else if state = js ''Completed'' then
        (if exitCode = Some 0 then js ''SUCCEEDED'' else js ''FAILED'')
      else js ''UNKNOWN'')"

section \<open>Errors\<close>

text \<open>
  \<open>createError(status, code, message)\<close> comes from a module outside the repository's
  sources, so an error it builds is the free term of its three arguments. The first
  argument is a status name (\<open>'Not Found'\<close>) or a status number; the message is
  \<open>None\<close> where the source passes \<open>undefined\<close>. \<open>TypeError\<close> is a property read on
  \<open>undefined\<close>, \<open>Thrown\<close> an exception of a collaborator (the HTTP transport, the YAML
  parser) that the source lets through unchanged.
\<close>

datatype status_arg = StatusCode int | StatusName jsstring

datatype error =
    createError status_arg jsstring "jsstring option"
  | TypeError
  | Thrown jsstring

section \<open>User model\<close>

text \<open>
  The storage object \<open>crudUser\<close> (Kubernetes secrets) lies outside the repository's
  sources: its \<open>read\<close> and \<open>create\<close> are arguments that act on the engine's state and
  return a value or throw. What they throw is a value with an optional \<open>status\<close>
  property. The world of the user model is the engine's state and the calls made to
  the engine so far.
\<close>

record crudError =
  error_status :: "int option"
  error_text :: jsstring

datatype 'v crud_call = ReadCall jsstring | CreateCall jsstring 'v

record ('s, 'u, 'v, 'c) crudUser =
  crud_read :: "jsstring \<Rightarrow> 's \<Rightarrow> (crudError + 'u) \<times> 's"
  crud_create :: "jsstring \<Rightarrow> 'v \<Rightarrow> 's \<Rightarrow> (crudError + 'c) \<times> 's"

record ('s, 'v) world =
  engine :: 's
  calls :: "'v crud_call list"

definition getUser ::
  "('s, 'u, 'v, 'c) crudUser \<Rightarrow> jsstring \<Rightarrow> ('s, 'v) world
     \<Rightarrow> (crudError + 'u) \<times> ('s, 'v) world" where
  "getUser crud username w =
     (case crud_read crud username (engine w) of
        (r, s) \<Rightarrow> (r, \<lparr> engine = s, calls = calls w @ [ReadCall username] \<rparr>))"

definition createUser ::
  "('s, 'u, 'v, 'c) crudUser \<Rightarrow> jsstring \<Rightarrow> 'v \<Rightarrow> ('s, 'v) world
     \<Rightarrow> (crudError + 'c) \<times> ('s, 'v) world" where
  "createUser crud username userValue w =
     (case crud_create crud username userValue (engine w) of
        (r, s) \<Rightarrow> (r, \<lparr> engine = s, calls = calls w @ [CreateCall username userValue] \<rparr>))"

text \<open>\<open>createUserIfNonExistent\<close> awaits \<open>getUser\<close> and \<open>createUser\<close> for their effect and
  returns nothing: what they resolve to is dropped, what they throw is thrown on.\<close>

definition createUserIfNonExistent ::
  "('s, 'u, 'v, 'c) crudUser \<Rightarrow> jsstring \<Rightarrow> 'v \<Rightarrow> ('s, 'v) world
     \<Rightarrow> (crudError + unit) \<times> ('s, 'v) world" where
  "createUserIfNonExistent crud username userValue w =
     (case getUser crud username w of
        (Inr found, w1) \<Rightarrow> (Inr (), w1)
      | (Inl error, w1) \<Rightarrow>
          if error_status error = Some 404 then
            (case createUser crud username userValue w1 of
               (Inr created, w2) \<Rightarrow> (Inr (), w2)
             | (Inl e, w2) \<Rightarrow> (Inl e, w2))
          else (Inl error, w1))"

section \<open>Workload spec builder\<close>

text \<open>
  The job configuration, with the fields the builder's policies read. An object is an
  association list in the order of \<open>Object.keys\<close>; a key that may be missing is an
  \<open>option\<close>.
\<close>

record completion =
  minFailedInstances :: "int option"
  minSucceededInstances :: "int option"

record taskRoleConfig =
  instances :: "int option"
  dockerImage :: jsstring
  completion :: "completion option"

record jobConfig =
  jobRetryCount :: "int option"
  taskRoles :: "(jsstring \<times> taskRoleConfig) list"
  prerequisites_dockerimage :: "(jsstring \<times> jsstring) list"

record retryPolicy =
  fancyRetryPolicy :: bool
  maxRetryCount :: int

record completionPolicy =
  minFailedTaskCount :: int
  minSucceededTaskCount :: int

record frameworkLabels =
  label_jobName :: "jsstring option"
  label_userName :: "jsstring option"
  label_virtualCluster :: jsstring

text \<open>
  Of the task role that \<open>generateTaskRole\<close> builds, the record keeps the name, the task
  number, the task retry policy, the pod labels, the main container's image and the
  completion policy. The rest of the pod template (init container, resource limits,
  volumes, environment, the hived scheduler's additions) is constant text or copied
  configuration that no property below reads.
\<close>

record frameworkTaskRole =
  tr_name :: jsstring
  taskNumber :: int
  task_retryPolicy :: retryPolicy
  pod_labels :: frameworkLabels
  main_image :: jsstring
  frameworkAttemptCompletionPolicy :: completionPolicy

record frameworkDescription =
  fd_apiVersion :: jsstring
  fd_kind :: jsstring
  fd_metadata_name :: jsstring
  fd_metadata_labels :: frameworkLabels
  fd_annotations_config :: jsstring
  fd_spec_executionType :: jsstring
  fd_spec_retryPolicy :: retryPolicy
  fd_spec_taskRoles :: "frameworkTaskRole list"

text \<open>\<open>x || d\<close> on a number that may be missing: \<open>undefined\<close> and \<open>0\<close> are falsy.\<close>

definition or_default :: "int option \<Rightarrow> int \<Rightarrow> int" where
  "or_default x d = (case x of None \<Rightarrow> d | Some n \<Rightarrow> if n = 0 then d else n)"

text \<open>Reading \<open>config.taskRoles[taskRole]\<close> or the image entry of the prerequisites for
  a key that is not there gives \<open>undefined\<close>, and the property read that follows throws.
  The other reads of the configuration (entry point, resources, placement) go into the
  part of the pod template that is left out.\<close>

definition generateTaskRole ::
  "(jsstring \<Rightarrow> jsstring) \<Rightarrow> jsstring \<Rightarrow> frameworkLabels \<Rightarrow> jobConfig \<Rightarrow> error + frameworkTaskRole" where
  "generateTaskRole unicodeLower taskRole labels config =
     (case map_of (taskRoles config) taskRole of
        None \<Rightarrow> Inl TypeError
      | Some role \<Rightarrow>
          (case map_of (prerequisites_dockerimage config) (dockerImage role) of
             None \<Rightarrow> Inl TypeError
           | Some uri \<Rightarrow>
               Inr \<lparr> tr_name = convertName unicodeLower taskRole,
                     taskNumber = or_default (instances role) 1,
                     task_retryPolicy = \<lparr> fancyRetryPolicy = True, maxRetryCount = 0 \<rparr>,
                     pod_labels = labels,
                     main_image = uri,
                     frameworkAttemptCompletionPolicy =
                       (case completion role of
                          Some c \<Rightarrow>
                            \<lparr> minFailedTaskCount =
                                (case minFailedInstances c of Some n \<Rightarrow> n | None \<Rightarrow> 1),
                              minSucceededTaskCount =
                                (case minSucceededInstances c of Some n \<Rightarrow> n | None \<Rightarrow> - 1) \<rparr>
                        | None \<Rightarrow> \<lparr> minFailedTaskCount = 1, minSucceededTaskCount = - 1 \<rparr>) \<rparr>))"

text \<open>The loop over \<open>Object.keys(config.taskRoles)\<close>; the first role that throws ends it.\<close>

fun generateTaskRoles ::
  "(jsstring \<Rightarrow> jsstring) \<Rightarrow> jsstring list \<Rightarrow> frameworkLabels \<Rightarrow> jobConfig
     \<Rightarrow> error + frameworkTaskRole list" where
  "generateTaskRoles unicodeLower [] labels config = Inr []"
| "generateTaskRoles unicodeLower (taskRole # others) labels config =
     (case generateTaskRole unicodeLower taskRole labels config of
        Inl e \<Rightarrow> Inl e
      | Inr d \<Rightarrow>
          (case generateTaskRoles unicodeLower others labels config of
             Inl e \<Rightarrow> Inl e
           | Inr ds \<Rightarrow> Inr (d # ds)))"

text \<open>\<open>apiVersion\<close> is \<open>launcherConfig.apiVersion\<close>. The environment list, which the
  source takes from \<open>runtimeEnv.generateFrameworkEnv\<close> (a module outside the repository's
  sources) and pushes into each main container, belongs to the part of the pod template
  that is left out.\<close>

definition generateFrameworkDescription ::
  "(jsstring \<Rightarrow> jsstring) \<Rightarrow> jsstring \<Rightarrow> jsstring \<Rightarrow> jsstring \<Rightarrow> jobConfig \<Rightarrow> jsstring
     \<Rightarrow> error + frameworkDescription" where
  "generateFrameworkDescription unicodeLower apiVersion frameworkName virtualCluster config rawConfig =
     (let parts = split_tilde frameworkName;
          frameworkLabels = \<lparr> label_jobName = at_index parts 1,
                               label_userName = at_index parts 0,
                               label_virtualCluster = virtualCluster \<rparr>
      in case generateTaskRoles unicodeLower (map fst (taskRoles config)) frameworkLabels config of
           Inl e \<Rightarrow> Inl e
         | Inr roles \<Rightarrow>
             Inr \<lparr> fd_apiVersion = apiVersion,
                   fd_kind = js ''Framework'',
                   fd_metadata_name = encodeName unicodeLower frameworkName,
                   fd_metadata_labels = frameworkLabels,
                   fd_annotations_config = rawConfig,
                   fd_spec_executionType = js ''Start'',
                   fd_spec_retryPolicy =
                     \<lparr> fancyRetryPolicy = (jobRetryCount config \<noteq> Some (- 2)),
                       maxRetryCount = or_default (jobRetryCount config) 0 \<rparr>,
                   fd_spec_taskRoles = roles \<rparr>)"

section \<open>Status projector\<close>

text \<open>
  A framework object as the controller returns it, with the fields the projector reads,
  named by the end of their path (\<open>framework.status.attemptStatus.completionStatus\<close> is
  \<open>completionStatus\<close>). A field the source tests before reading it (\<open>labels\<close>,
  \<open>annotations\<close>, \<open>completionStatus\<close>) is an \<open>option\<close>. The two time fields stand for what
  \<open>new Date(...).getTime()\<close> makes of the controller's time text: the milliseconds
  since the epoch, or \<open>None\<close> for \<open>NaN\<close> when the text is missing or not a date.
\<close>

record completionStatus =
  completion_code :: int
  diagnostics :: jsstring
  type_name :: jsstring

record taskStatus =
  task_index :: int
  task_state :: jsstring
  podName :: jsstring
  podHostIP :: jsstring
  task_completionStatus :: "completionStatus option"

record taskRoleStatus =
  role_name :: jsstring
  taskStatuses :: "taskStatus list"

record labels =
  userName :: "jsstring option"
  labels_virtualCluster :: "jsstring option"

record framework =
  metadata_name :: jsstring
  metadata_labels :: "labels option"
  metadata_annotations :: "(jsstring \<times> jsstring) list option"
  spec_executionType :: jsstring
  status_state :: jsstring
  startTime :: "int option"
  completionTime :: "int option"
  totalRetriedCount :: int
  accountableRetriedCount :: int
  instanceUID :: jsstring
  completionStatus :: "completionStatus option"
  taskRoleStatuses :: "taskRoleStatus list"

text \<open>The fields that the summary of a job and the \<open>jobStatus\<close> of its detail share.\<close>

record retryDetail =
  user :: int
  platform :: int
  resource :: int

record jobView =
  username :: "jsstring option"
  state :: jsstring
  subState :: jsstring
  executionType :: jsstring
  retries :: int
  retryDetails :: retryDetail
  createdTime :: "int option"
  completedTime :: "int option"
  appExitCode :: "int option"
  virtualCluster :: "jsstring option"

record frameworkSummary = jobView +
  name :: "jsstring option"
  totalGpuNumber :: int
  totalTaskNumber :: nat
  totalTaskRoleNumber :: nat

text \<open>Of \<open>jobStatus\<close> the fields left out are the constant ones (\<open>appTrackingUrl\<close>,
  \<open>appExitSpec\<close>, \<open>appExitMessages\<close> and the two trigger fields set to \<open>null\<close>); of a task
  detail, \<open>containerPorts\<close>, \<open>containerGpus\<close> and \<open>containerLog\<close>.\<close>

record jobStatus = jobView +
  appId :: jsstring
  appProgress :: int
  appLaunchedTime :: "int option"
  appCompletedTime :: "int option"
  appExitDiagnostics :: "jsstring option"
  appExitTriggerMessage :: "jsstring option"
  appExitType :: "jsstring option"

record taskDetail =
  taskIndex :: int
  taskState :: jsstring
  containerId :: jsstring
  containerIp :: jsstring
  containerExitCode :: "int option"

record taskRoleDetail =
  taskRoleStatus_name :: jsstring
  detail_taskStatuses :: "taskDetail list"

record frameworkDetail =
  detail_name :: "jsstring option"
  detail_jobStatus :: jobStatus
  detail_taskRoles :: "(jsstring \<times> taskRoleDetail) list"

definition convertFrameworkSummary :: "(jsstring \<Rightarrow> jsstring) \<Rightarrow> framework \<Rightarrow> frameworkSummary" where
  "convertFrameworkSummary unicodeUpper framework =
     \<lparr> username = (case metadata_labels framework of Some l \<Rightarrow> userName l
                    | None \<Rightarrow> Some (js ''unknown'')),
       state = convertState (status_state framework)
                 (map_option completion_code (completionStatus framework)),
       subState = status_state framework,
       executionType = toUpperCase unicodeUpper (spec_executionType framework),
       retries = totalRetriedCount framework,
       retryDetails = \<lparr> user = accountableRetriedCount framework,
                        platform = totalRetriedCount framework - accountableRetriedCount framework,
                        resource = 0 \<rparr>,
       createdTime = startTime framework,
       completedTime = completionTime framework,
       appExitCode = map_option completion_code (completionStatus framework),
       virtualCluster = (case metadata_labels framework of Some l \<Rightarrow> labels_virtualCluster l
                          | None \<Rightarrow> Some (js ''unknown'')),
       name = decodeName (metadata_name framework),
       totalGpuNumber = 0,
       totalTaskNumber = foldl (\<lambda>num statuses. num + length (taskStatuses statuses)) 0
                           (taskRoleStatuses framework),
       totalTaskRoleNumber = length (taskRoleStatuses framework) \<rparr>"

definition convertTaskDetail :: "taskStatus \<Rightarrow> taskDetail" where
  "convertTaskDetail taskStatus =
     \<lparr> taskIndex = task_index taskStatus,
       taskState = convertState (task_state taskStatus)
                     (map_option completion_code (task_completionStatus taskStatus)),
       containerId = podName taskStatus,
       containerIp = podHostIP taskStatus,
       containerExitCode = map_option completion_code (task_completionStatus taskStatus) \<rparr>"

text \<open>The loop that fills \<open>detail.taskRoles\<close>: assigning to a key that is already there
  replaces its entry in place.\<close>

definition convertFrameworkDetail :: "(jsstring \<Rightarrow> jsstring) \<Rightarrow> framework \<Rightarrow> frameworkDetail" where
  "convertFrameworkDetail unicodeUpper framework =
     \<lparr> detail_name = decodeName (metadata_name framework),
       detail_jobStatus =
         \<lparr> username = (case metadata_labels framework of Some l \<Rightarrow> userName l
                        | None \<Rightarrow> Some (js ''unknown'')),
           state = convertState (status_state framework)
                     (map_option completion_code (completionStatus framework)),
           subState = status_state framework,
           executionType = toUpperCase unicodeUpper (spec_executionType framework),
           retries = totalRetriedCount framework,
           retryDetails = \<lparr> user = accountableRetriedCount framework,
                            platform = totalRetriedCount framework - accountableRetriedCount framework,
                            resource = 0 \<rparr>,
           createdTime = startTime framework,
           completedTime = completionTime framework,
           appExitCode = map_option completion_code (completionStatus framework),
           virtualCluster = (case metadata_labels framework of Some l \<Rightarrow> labels_virtualCluster l
                              | None \<Rightarrow> Some (js ''unknown'')),
           appId = instanceUID framework,
           appProgress = (case completionStatus framework of Some c \<Rightarrow> 1 | None \<Rightarrow> 0),
           appLaunchedTime = startTime framework,
           appCompletedTime = completionTime framework,
           appExitDiagnostics = map_option diagnostics (completionStatus framework),
           appExitTriggerMessage = map_option diagnostics (completionStatus framework),
           appExitType = map_option type_name (completionStatus framework) \<rparr>,
       detail_taskRoles =
         foldl (\<lambda>roles taskRoleStatus.
                  AList.update (role_name taskRoleStatus)
                    \<lparr> taskRoleStatus_name = role_name taskRoleStatus,
                      detail_taskStatuses = map convertTaskDetail (taskStatuses taskRoleStatus) \<rparr>
                    roles)
           [] (taskRoleStatuses framework) \<rparr>"

section \<open>Controller client\<close>

text \<open>
  \<open>launcherConfig\<close> lies outside the repository's sources; the client reads four of its
  entries. \<open>status('OK')\<close>, \<open>status('Created')\<close> and \<open>status('Not Found')\<close> of the
  \<open>statuses\<close> package are 200, 201 and 404.
\<close>

record launcherConfig =
  apiVersion :: jsstring
  frameworksPath :: jsstring
  frameworkPath :: "jsstring \<Rightarrow> jsstring"
  requestHeaders :: "(jsstring \<times> jsstring) list"

datatype json = JString jsstring | JObject "(jsstring \<times> json) list"

record request =
  http_method :: jsstring
  url :: jsstring
  headers :: "(jsstring \<times> jsstring) list"
  req_data :: "json option"

text \<open>The body of a response, by the properties it has: an object with \<open>items\<close> (a list
  of frameworks), a framework object, or an object with at most a \<open>message\<close> (\<open>None\<close>
  when it has none). Reading a property that the body does not have gives \<open>undefined\<close>,
  and reading a property of that throws.\<close>

datatype response_data =
    ItemsBody "framework list"
  | FrameworkBody framework
  | MessageBody "jsstring option"

record response =
  status :: int
  data :: response_data

definition data_message :: "response_data \<Rightarrow> jsstring option" where
  "data_message d = (case d of MessageBody m \<Rightarrow> m | _ \<Rightarrow> None)"

text \<open>
  \<open>axios(request)\<close> resolves to a response or rejects with an error that may carry one.
  Every operation wraps the call in the same \<open>try\<close>/\<open>catch\<close>: a rejection with a response
  continues with that response, one without is thrown on.
\<close>

datatype axios_outcome = Resolved response | Rejected jsstring "response option"

definition await_response :: "axios_outcome \<Rightarrow> error + response" where
  "await_response outcome =
     (case outcome of
        Resolved r \<Rightarrow> Inr r
      | Rejected cause (Some r) \<Rightarrow> Inr r
      | Rejected cause None \<Rightarrow> Inl (Thrown cause))"

text \<open>
  \<open>Array.prototype.sort(comparefn)\<close> is given by its result: the elements in the order
  of \<open>comparefn\<close>, elements that compare equal in their first order. Insertion from the
  right computes it: an element moves behind those that \<open>comparefn\<close> puts before it, that
  is where \<open>comparefn(x, y) > 0\<close>. A comparison that yields \<open>NaN\<close> (\<open>None\<close>) counts as
  \<open>+0\<close>.
\<close>

definition sorts_after :: "('a \<Rightarrow> 'a \<Rightarrow> int option) \<Rightarrow> 'a \<Rightarrow> 'a \<Rightarrow> bool" where
  "sorts_after comparefn x y = (case comparefn x y of Some v \<Rightarrow> 0 < v | None \<Rightarrow> False)"

fun sort_insert :: "('a \<Rightarrow> 'a \<Rightarrow> int option) \<Rightarrow> 'a \<Rightarrow> 'a list \<Rightarrow> 'a list" where
  "sort_insert comparefn x [] = [x]"
| "sort_insert comparefn x (y # ys) =
     (if sorts_after comparefn x y then y # sort_insert comparefn x ys else x # y # ys)"

definition array_sort :: "('a \<Rightarrow> 'a \<Rightarrow> int option) \<Rightarrow> 'a list \<Rightarrow> 'a list" where
  "array_sort comparefn xs = foldr (sort_insert comparefn) xs []"

text \<open>\<open>(a, b) => b.createdTime - a.createdTime\<close>; the difference is \<open>NaN\<close> when either
  time is.\<close>

definition byCreatedTime :: "frameworkSummary \<Rightarrow> frameworkSummary \<Rightarrow> int option" where
  "byCreatedTime a b =
     (case (createdTime b, createdTime a) of
        (Some tb, Some ta) \<Rightarrow> Some (tb - ta)
      | _ \<Rightarrow> None)"

text \<open>Each operation returns its outcome and the requests it has sent. Of the five
  operations, \<open>put\<close> is left out: no property below is about it.\<close>

definition list_op ::
  "launcherConfig \<Rightarrow> (jsstring \<Rightarrow> jsstring) \<Rightarrow> (request \<Rightarrow> axios_outcome)
     \<Rightarrow> (error + frameworkSummary list) \<times> request list" where
  "list_op cfg unicodeUpper axios =
     (let req = \<lparr> http_method = js ''get'', url = frameworksPath cfg,
                  headers = requestHeaders cfg, req_data = None \<rparr>
      in (case await_response (axios req) of
            Inl e \<Rightarrow> Inl e
          | Inr response \<Rightarrow>
              if status response = 200 then
                (case data response of
                   ItemsBody items \<Rightarrow>
                     Inr (array_sort byCreatedTime (map (convertFrameworkSummary unicodeUpper) items))
                 | _ \<Rightarrow> Inl TypeError)
              else Inl (createError (StatusCode (status response)) (js ''UnknownError'')
                          (data_message (data response))),
          [req]))"

definition get ::
  "launcherConfig \<Rightarrow> (jsstring \<Rightarrow> jsstring) \<Rightarrow> (jsstring \<Rightarrow> jsstring) \<Rightarrow> (request \<Rightarrow> axios_outcome)
     \<Rightarrow> jsstring \<Rightarrow> (error + frameworkDetail) \<times> request list" where
  "get cfg unicodeLower unicodeUpper axios frameworkName =
     (let req = \<lparr> http_method = js ''get'',
                  url = frameworkPath cfg (encodeName unicodeLower frameworkName),
                  headers = requestHeaders cfg, req_data = None \<rparr>
      in (case await_response (axios req) of
            Inl e \<Rightarrow> Inl e
          | Inr response \<Rightarrow>
              if status response = 200 then
                (case data response of
                   FrameworkBody framework \<Rightarrow> Inr (convertFrameworkDetail unicodeUpper framework)
                 | _ \<Rightarrow> Inl TypeError)
              else if status response = 404 then
                Inl (createError (StatusName (js ''Not Found'')) (js ''NoJobError'')
                       (Some (js ''Job '' @ frameworkName @ js '' is not found.'')))
              else Inl (createError (StatusCode (status response)) (js ''UnknownError'')
                          (data_message (data response))),
          [req]))"

text \<open>\<open>s.charAt(0)\<close> is the first code unit or the empty string, \<open>s.slice(1)\<close> the rest.\<close>

definition execute ::
  "launcherConfig \<Rightarrow> (jsstring \<Rightarrow> jsstring) \<Rightarrow> (request \<Rightarrow> axios_outcome)
     \<Rightarrow> jsstring \<Rightarrow> jsstring \<Rightarrow> (error + unit) \<times> request list" where
  "execute cfg unicodeLower axios frameworkName executionType' =
     (let req = \<lparr> http_method = js ''patch'',
                  url = frameworkPath cfg (encodeName unicodeLower frameworkName),
                  headers = [(js ''Content-Type'', js ''application/merge-patch+json'')],
                  req_data = Some (JObject [(js ''spec'', JObject [(js ''executionType'',
                    JString (take 1 executionType'
                             @ toLowerCase unicodeLower (drop 1 executionType')))])]) \<rparr>
      in (case await_response (axios req) of
            Inl e \<Rightarrow> Inl e
          | Inr response \<Rightarrow>
              if status response \<noteq> 200 then
                Inl (createError (StatusCode (status response)) (js ''UnknownError'')
                       (data_message (data response)))
              else Inr (),
          [req]))"

text \<open>\<open>yaml.safeLoad\<close> is the parser of the \<open>js-yaml\<close> package, an argument here: it
  returns the parsed value or throws. \<open>annotations_config\<close> is the value of
  \<open>annotations && annotations.config\<close> when it is a string, \<open>None\<close> when the annotations
  or their \<open>config\<close> entry are missing. A string is truthy when it is not empty.\<close>

definition annotations_config :: "framework \<Rightarrow> jsstring option" where
  "annotations_config framework =
     (case metadata_annotations framework of
        Some annotations \<Rightarrow> map_of annotations (js ''config'')
      | None \<Rightarrow> None)"

definition getConfig ::
  "launcherConfig \<Rightarrow> (jsstring \<Rightarrow> jsstring) \<Rightarrow> (jsstring \<Rightarrow> error + 'c) \<Rightarrow> (request \<Rightarrow> axios_outcome)
     \<Rightarrow> jsstring \<Rightarrow> (error + 'c) \<times> request list" where
  "getConfig cfg unicodeLower safeLoad axios frameworkName =
     (let req = \<lparr> http_method = js ''get'',
                  url = frameworkPath cfg (encodeName unicodeLower frameworkName),
                  headers = requestHeaders cfg, req_data = None \<rparr>;
          noConfig = createError (StatusName (js ''Not Found'')) (js ''NoJobConfigError'')
                       (Some (js ''Config of job '' @ frameworkName @ js '' is not found.''))
      in (case await_response (axios req) of
            Inl e \<Rightarrow> Inl e
          | Inr response \<Rightarrow>
              if status response = 200 then
                (case data response of
                   FrameworkBody framework \<Rightarrow>
                     (case annotations_config framework of
                        Some text \<Rightarrow> if text \<noteq> [] then safeLoad text else Inl noConfig
                      | None \<Rightarrow> Inl noConfig)
                 | _ \<Rightarrow> Inl TypeError)
              else if status response = 404 then
                Inl (createError (StatusName (js ''Not Found'')) (js ''NoJobError'')
                       (Some (js ''Job '' @ frameworkName @ js '' is not found.'')))
              else Inl (createError (StatusCode (status response)) (js ''UnknownError'')
                          (data_message (data response))),
          [req]))"

section \<open>Notions of the statements\<close>

text \<open>The lower-case hexadecimal digits, and the state strings that \<open>convertState\<close>
  lists.\<close>

definition isLowerHexDigit :: "16 word \<Rightarrow> bool" where
  "isLowerHexDigit c = ((0x30 \<le> c \<and> c \<le> 0x39) \<or> (0x61 \<le> c \<and> c \<le> 0x66))"

definition knownStates :: "jsstring list" where
  "knownStates =
     [js ''AttemptCreationPending'', js ''AttemptCreationRequested'', js ''AttemptPreparing'',
      js ''AttemptRunning'', js ''AttemptDeletionPending'', js ''AttemptDeletionRequested'',
      js ''AttemptDeleting'', js ''AttemptCompleted'', js ''Completed'']"

text \<open>Every task role of the configuration names a docker image that the prerequisites
  declare.\<close>

definition images_declared :: "jobConfig \<Rightarrow> bool" where
  "images_declared config =
     list_all (\<lambda>entry. map_of (prerequisites_dockerimage config) (dockerImage (snd entry)) \<noteq> None)
       (taskRoles config)"

text \<open>\<open>a >= b\<close> on two times, false when either is \<open>NaN\<close>; a list of summaries is
  descending when every earlier element's \<open>createdTime\<close> is \<open>>=\<close> every later one's.\<close>

definition js_ge :: "int option \<Rightarrow> int option \<Rightarrow> bool" where
  "js_ge a b = (case (a, b) of (Some x, Some y) \<Rightarrow> y \<le> x | _ \<Rightarrow> False)"

definition descending :: "frameworkSummary list \<Rightarrow> bool" where
  "descending xs = sorted_wrt (\<lambda>a b. js_ge (createdTime a) (createdTime b)) xs"

text \<open>The execution type as the specification words it: the first letter capitalized,
  the remaining letters lower-cased.\<close>

definition capitalized_spec ::
  "(jsstring \<Rightarrow> jsstring) \<Rightarrow> (jsstring \<Rightarrow> jsstring) \<Rightarrow> jsstring \<Rightarrow> jsstring" where
  "capitalized_spec unicodeUpper unicodeLower s =
     toUpperCase unicodeUpper (take 1 s) @ toLowerCase unicodeLower (drop 1 s)"

section \<open>Instances\<close>

text \<open>A launcher configuration, a controller that answers every request with one
  status and body (\<open>axios\<close> resolves on a 2xx status and rejects with the response on any
  other), a framework object, a job configuration and two storage engines: one that
  keeps its users in a list and reports a missing user with status 404, one whose read
  fails with status 500.\<close>

definition exampleLauncher :: launcherConfig where
  "exampleLauncher =
     \<lparr> apiVersion = js ''frameworkcontroller.microsoft.com/v1'',
       frameworksPath = js ''/frameworks'',
       frameworkPath = (\<lambda>n. js ''/frameworks/'' @ n),
       requestHeaders = [(js ''Accept'', js ''application/json'')] \<rparr>"

definition respond :: "int \<Rightarrow> response_data \<Rightarrow> request \<Rightarrow> axios_outcome" where
  "respond code body req =
     (if 200 \<le> code \<and> code < 300 then Resolved \<lparr> status = code, data = body \<rparr>
      else Rejected (js ''Request failed'') (Some \<lparr> status = code, data = body \<rparr>))"

definition exampleFramework ::
  "jsstring \<Rightarrow> int option \<Rightarrow> (jsstring \<times> jsstring) list option \<Rightarrow> framework" where
  "exampleFramework controllerName started annotations =
     \<lparr> metadata_name = controllerName,
       metadata_labels = None,
       metadata_annotations = annotations,
       spec_executionType = js ''Start'',
       status_state = js ''AttemptRunning'',
       startTime = started,
       completionTime = None,
       totalRetriedCount = 0,
       accountableRetriedCount = 0,
       instanceUID = js ''0_5c3f'',
       completionStatus = None,
       taskRoleStatuses = [] \<rparr>"

definition exampleConfig :: jobConfig where
  "exampleConfig =
     \<lparr> jobRetryCount = Some (- 2),
       taskRoles =
         [(js ''worker'', \<lparr> instances = Some 3, dockerImage = js ''image'', completion = None \<rparr>),
          (js ''ps'', \<lparr> instances = None, dockerImage = js ''image'',
                       completion = Some \<lparr> minFailedInstances = Some 2,
                                           minSucceededInstances = None \<rparr> \<rparr>)],
       prerequisites_dockerimage = [(js ''image'', js ''example/image:1'')] \<rparr>"

definition memoryStore :: "((jsstring \<times> nat) list, nat, nat, unit) crudUser" where
  "memoryStore =
     \<lparr> crud_read = (\<lambda>u s. (case map_of s u of
                               Some x \<Rightarrow> Inr x
                             | None \<Rightarrow> Inl \<lparr> error_status = Some 404,
                                             error_text = js ''NotFound'' \<rparr>, s)),
       crud_create = (\<lambda>u x s. (Inr (), s @ [(u, x)])) \<rparr>"

definition brokenStore :: "((jsstring \<times> nat) list, nat, nat, unit) crudUser" where
  "brokenStore =
     \<lparr> crud_read = (\<lambda>u s. (Inl \<lparr> error_status = Some 500,
                                  error_text = js ''InternalError'' \<rparr>, s)),
       crud_create = (\<lambda>u x s. (Inr (), s @ [(u, x)])) \<rparr>"

chapter \<open>Properties\<close>

section \<open>Hexadecimal and UTF-8 transport of a name\<close>

lemma unat_byte_lt: "unat (b :: 8 word) < 256"
  using unsigned_less [of b, where ?'a = nat] by simp

lemma unat_unit_lt: "unat (c :: 16 word) < 65536"
  using unsigned_less [of c, where ?'a = nat] by simp

lemma unat_tilde: "unat (c :: 16 word) = 126 \<longleftrightarrow> c = 0x7E"
  by (simp add: word_unat_eq_iff)

lemma hexValue_hexDigit: "n < 16 \<Longrightarrow> hexValue (hexDigit n) = Some n"
  by (auto simp: hexDigit_def hexValue_def Let_def unat_of_nat)

lemma from_hex_toString_hex: "from_hex (toString_hex buf @ rest) = buf @ from_hex rest"
proof (induction buf)
  case Nil
  then show ?case by (simp add: toString_hex_def)
next
  case (Cons b buf)
  have lt: "unat b div 16 < 16" using unat_byte_lt [of b] by simp
  have "of_nat (16 * (unat b div 16) + unat b mod 16) = b" by simp
  with Cons lt show ?case
    by (simp add: toString_hex_def hexValue_hexDigit)
qed

lemma ascii_unit_roundtrip:
  "unat (a :: 16 word) < 128 \<Longrightarrow>
   (of_nat (unat (of_nat (unat a) :: 8 word) mod 128) :: 16 word) = a"
  by (simp only: unat_of_nat) simp

lemma utf8_encode_ascii:
  "list_all isAscii s \<Longrightarrow> utf8_encode s = map (\<lambda>c. of_nat (unat c)) s"
proof (induction s rule: utf8_encode.induct)
  case 1
  then show ?case by simp
next
  case (2 c)
  then show ?case
    by (simp add: utf8_unit_def utf8_bytes_def isAscii_def word_less_nat_alt)
next
  case (3 c d ds)
  then show ?case
    by (auto simp: utf8_unit_def utf8_bytes_def isAscii_def isHighSurrogate_def
          word_less_nat_alt word_le_nat_alt)
qed

lemma toString_ascii_utf8:
  assumes "list_all isAscii s"
  shows "toString_ascii (utf8_encode s) = s"
proof -
  have "map (\<lambda>c. of_nat (unat (of_nat (unat c) :: 8 word) mod 128) :: 16 word) s = s"
    using assms
    by (induction s)
       (simp_all add: isAscii_def word_less_nat_alt ascii_unit_roundtrip del: of_nat_unat)
  then show ?thesis
    using assms by (simp add: utf8_encode_ascii toString_ascii_def comp_def del: of_nat_unat)
qed

lemma toString_ascii_append:
  "toString_ascii (a @ b) = toString_ascii a @ toString_ascii b"
  by (simp add: toString_ascii_def)

text \<open>No byte of a UTF-8 encoding turns into \<open>~\<close> when its high bit is cleared, other
  than the byte of \<open>~\<close> itself.\<close>

lemma lead2_no_tilde: "q < 32 \<Longrightarrow> (192 + q) mod 128 \<noteq> (126::nat)"
  by (simp add: le_mod_geq)

lemma lead3_no_tilde: "q < 16 \<Longrightarrow> (224 + q) mod 128 \<noteq> (126::nat)"
  by (simp add: le_mod_geq)

lemma lead4_no_tilde: "q < 5 \<Longrightarrow> (240 + q) mod 128 \<noteq> (126::nat)"
  by (simp add: le_mod_geq)

lemma continuation_no_tilde: "(128 + x mod 64) mod 128 \<noteq> (126::nat)"
proof -
  have "x mod 64 < 64" by simp
  then show ?thesis by (simp add: le_mod_geq)
qed

lemma utf8_bytes_no_tilde:
  assumes "n < 0x110000" "n \<noteq> 126" "k \<in> set (utf8_bytes n)"
  shows "k mod 128 \<noteq> 126"
proof -
  have d2: "n < 2048 \<Longrightarrow> n div 64 < 32" by simp
  have d3: "n < 65536 \<Longrightarrow> n div 4096 < 16" by simp
  have d4: "n div 262144 < 5" using assms(1) by simp
  show ?thesis
    using assms(2,3) d2 d3 d4
    by (auto simp: utf8_bytes_def lead2_no_tilde lead3_no_tilde lead4_no_tilde
          continuation_no_tilde split: if_splits)
qed

lemma ascii_of_byte_tilde:
  "(of_nat (unat (of_nat k :: 8 word) mod 128) :: 16 word) = 0x7E \<longleftrightarrow> k mod 128 = 126"
proof -
  have m: "unat (of_nat k :: 8 word) mod 128 = k mod 128"
    by (simp add: unat_of_nat mod_mod_cancel)
  have "(of_nat (k mod 128) :: 16 word) = 0x7E
          \<longleftrightarrow> unat (of_nat (k mod 128) :: 16 word) = unat (0x7E :: 16 word)"
    by (simp only: word_unat_eq_iff)
  also have "unat (of_nat (k mod 128) :: 16 word) = k mod 128"
    by (simp add: unat_of_nat)
  finally show ?thesis using m by simp
qed

lemma toString_ascii_tilde:
  "0x7E \<in> set (toString_ascii (map of_nat ks)) \<longleftrightarrow> (\<exists>k\<in>set ks. k mod 128 = 126)"
  by (induction ks) (auto simp: toString_ascii_def ascii_of_byte_tilde simp del: of_nat_unat)

lemma utf8_unit_no_tilde: "c \<noteq> 0x7E \<Longrightarrow> 0x7E \<notin> set (toString_ascii (utf8_unit c))"
  using utf8_bytes_no_tilde [of "unat c"] unat_unit_lt [of c]
  by (auto simp: utf8_unit_def toString_ascii_tilde unat_tilde)

lemma pair_code_point:
  assumes "isHighSurrogate hi" "isLowSurrogate lo"
  shows "0x10000 + (unat hi - 0xD800) * 1024 + (unat lo - 0xDC00) < (0x110000 :: nat)
         \<and> 0x10000 + (unat hi - 0xD800) * 1024 + (unat lo - 0xDC00) \<noteq> (126 :: nat)"
proof -
  from assms have "unat hi \<le> 56319" "56320 \<le> unat lo" "unat lo \<le> 57343"
    by (simp_all add: isHighSurrogate_def isLowSurrogate_def word_le_nat_alt)
  then show ?thesis by linarith
qed

lemma utf8_pair_no_tilde:
  "isHighSurrogate hi \<Longrightarrow> isLowSurrogate lo
     \<Longrightarrow> 0x7E \<notin> set (toString_ascii (utf8_pair hi lo))"
  using utf8_bytes_no_tilde [of "0x10000 + (unat hi - 0xD800) * 1024 + (unat lo - 0xDC00)"]
    pair_code_point [of hi lo]
  by (auto simp: utf8_pair_def toString_ascii_tilde)

lemma utf8_encode_no_tilde:
  "0x7E \<notin> set s \<Longrightarrow> 0x7E \<notin> set (toString_ascii (utf8_encode s))"
proof (induction s rule: utf8_encode.induct)
  case 1
  then show ?case by (simp add: toString_ascii_def)
next
  case (2 c)
  then show ?case by (simp add: utf8_unit_no_tilde)
next
  case (3 c d ds)
  then show ?case
    by (auto simp: toString_ascii_append utf8_unit_no_tilde utf8_pair_no_tilde)
qed

lemma utf8_encode_append:
  "\<not> isLowSurrogate c \<Longrightarrow> utf8_encode (u @ c # v) = utf8_encode u @ utf8_encode (c # v)"
  by (induction u rule: utf8_encode.induct) auto

section \<open>Splitting at the first separator\<close>

lemma dot_run_all: "list_all (\<lambda>c. \<not> isLineTerminator c) s \<Longrightarrow> dot_run s = s"
  by (simp add: dot_run_def list_all_iff)

lemma after_dot_run_all: "list_all (\<lambda>c. \<not> isLineTerminator c) s \<Longrightarrow> after_dot_run s = []"
  by (simp add: after_dot_run_def list_all_iff)

lemma split_tilde_from_first:
  assumes "0x7E \<notin> set u" "j \<noteq> []" "list_all (\<lambda>c. \<not> isLineTerminator c) j"
  shows "split_tilde_from piece (u @ 0x7E # j) = [piece @ u, j, []]"
  using assms
  by (induction u arbitrary: piece) (simp_all add: dot_run_all after_dot_run_all)

lemma startsWith_append: "startsWith (p @ s) p"
  by (simp add: startsWith_def)

lemma replace_prefix_append: "replace_prefix p (p @ s) = s"
  by (simp add: replace_prefix_def startsWith_def)

section \<open>Name codec: round trip\<close>

text \<open>
  C1, as stated, fails: the encoder writes the UTF-8 bytes of the identifier, the decoder
  reads the bytes back as ASCII and clears the high bit of each. For the identifier
  \<open>u~\<close> followed by U+00E9 the bytes are \<open>75 7E C3 A9\<close>, and the decoder returns \<open>C)\<close>
  instead of the job name.
\<close>

theorem decodeName_encodeName_non_ascii:
  "decodeName (encodeName (\<lambda>s. s) (js ''u~'' @ [0xE9])) = Some (js ''C)'')
   \<and> decodeName (encodeName (\<lambda>s. s) (js ''u~'' @ [0xE9])) \<noteq> Some [0xE9]"
  by (simp add: decodeName_def encodeName_def js_def startsWith_def str_includes_def
      replace_prefix_def toString_hex_def hexDigit_def hexValue_def toString_ascii_def
      utf8_unit_def utf8_bytes_def split_tilde_def at_index_def dot_run_def after_dot_run_def
      isLineTerminator_def isHighSurrogate_def isLowSurrogate_def)

text \<open>Two more identifiers that contain the separator and lose their job name: one with
  an empty job name (the pattern \<open>~(.+)\<close> needs a unit after the separator, so \<open>split\<close>
  returns one piece and index 1 is \<open>undefined\<close>), and one with a line feed in the job
  name (the group stops before it).\<close>

lemma decodeName_encodeName_empty_jobName:
  "decodeName (encodeName (\<lambda>s. s) (js ''user~'')) = None"
  by (simp add: decodeName_def encodeName_def js_def startsWith_def str_includes_def
      replace_prefix_def toString_hex_def hexDigit_def hexValue_def toString_ascii_def
      utf8_unit_def utf8_bytes_def split_tilde_def at_index_def dot_run_def after_dot_run_def
      isLineTerminator_def isHighSurrogate_def isLowSurrogate_def)

lemma decodeName_encodeName_line_feed:
  "decodeName (encodeName (\<lambda>s. s) (js ''u~a'' @ [0x0A] @ js ''b'')) = Some (js ''a'')"
  by (simp add: decodeName_def encodeName_def js_def startsWith_def str_includes_def
      replace_prefix_def toString_hex_def hexDigit_def hexValue_def toString_ascii_def
      utf8_unit_def utf8_bytes_def split_tilde_def at_index_def dot_run_def after_dot_run_def
      isLineTerminator_def isHighSurrogate_def isLowSurrogate_def)

text \<open>
  C1, amended: for every identifier \<open>usr~job\<close> that does not start with
  \<open>unknown\<close>, whose user name has no \<open>~\<close> (so the separator is the first \<open>~\<close> of the
  identifier) and whose job name is not empty, is ASCII and has no line terminator,
  decoding the encoded name gives back the job name, also when the job name contains
  \<open>~\<close>. The user name may be any string.
\<close>

theorem decodeName_encodeName:
  assumes "0x7E \<notin> set usr"
    and "\<not> startsWith (usr @ 0x7E # job) (js ''unknown'')"
    and "job \<noteq> []"
    and "list_all isAscii job"
    and "list_all (\<lambda>c. \<not> isLineTerminator c) job"
  shows "decodeName (encodeName unicodeLower (usr @ 0x7E # job)) = Some job"
proof -
  let ?name = "usr @ 0x7E # job"
  let ?u = "toString_ascii (utf8_encode usr)"
  have enc: "encodeName unicodeLower ?name = js ''hex'' @ toString_hex (utf8_encode ?name)"
    using assms(2) by (simp add: encodeName_def str_includes_def)
  have hex: "from_hex (toString_hex (utf8_encode ?name)) = utf8_encode ?name"
    using from_hex_toString_hex [of "utf8_encode ?name" "[]"] by simp
  have "\<not> isLowSurrogate 0x7E"
    by (simp add: isLowSurrogate_def)
  then have parts: "utf8_encode ?name = utf8_encode usr @ utf8_encode (0x7E # job)"
    by (rule utf8_encode_append)
  have "list_all isAscii (0x7E # job)"
    using assms(4) by (simp add: isAscii_def)
  then have "toString_ascii (utf8_encode (0x7E # job)) = 0x7E # job"
    by (rule toString_ascii_utf8)
  with parts have ascii: "toString_ascii (utf8_encode ?name) = ?u @ 0x7E # job"
    by (simp add: toString_ascii_append)
  have "0x7E \<notin> set ?u"
    using assms(1) by (rule utf8_encode_no_tilde)
  then have "split_tilde (?u @ 0x7E # job) = [?u, job, []]"
    using split_tilde_from_first [OF _ assms(3,5), of ?u "[]"] by (simp add: split_tilde_def)
  with ascii hex show ?thesis
    by (simp add: enc decodeName_def startsWith_append replace_prefix_append at_index_def)
qed

theorem decodeName_encodeName_witness:
  "decodeName (encodeName (\<lambda>s. s) (js ''user~my~job'')) = Some (js ''my~job'')"
  using decodeName_encodeName [of "js ''user''" "js ''my~job''" "\<lambda>s. s"]
  by (simp add: js_def isAscii_def isLineTerminator_def startsWith_def)

section \<open>Name codec: legal names\<close>

lemma hexDigit_lower_hex: "n < 16 \<Longrightarrow> isLowerHexDigit (hexDigit n)"
  by (auto simp: hexDigit_def isLowerHexDigit_def word_le_nat_alt unat_of_nat)

lemma lower_hex_alnum: "isLowerHexDigit c \<Longrightarrow> isLowerAlnum c"
  by (auto simp: isLowerHexDigit_def isLowerAlnum_def word_le_nat_alt)

lemma toString_hex_digits: "list_all isLowerHexDigit (toString_hex buf)"
proof (induction buf)
  case Nil
  then show ?case by (simp add: toString_hex_def)
next
  case (Cons b buf)
  have "unat b div 16 < 16" using unat_byte_lt [of b] by simp
  moreover have "unat b mod 16 < 16" by simp
  ultimately show ?case
    using Cons by (simp add: toString_hex_def hexDigit_lower_hex)
qed

lemma hex_marker_alnum: "list_all isLowerAlnum (js ''hex'')"
  by (simp add: js_def isLowerAlnum_def)

text \<open>
  C10: for every input string, and whatever the Unicode case table does, \<open>encodeName\<close>
  returns a name of characters in \<open>[a-z0-9]\<close> only. On the lossy path the name is the
  lower-cased string with every other character removed; on the lossless path it is
  the marker \<open>hex\<close> followed by lower-case hexadecimal digits.
\<close>

theorem encodeName_legal:
  "list_all isLowerAlnum (encodeName unicodeLower ident)
   \<and> (if startsWith ident (js ''unknown'') \<or> \<not> str_includes ident 0x7E
      then encodeName unicodeLower ident
           = filter isLowerAlnum (toLowerCase unicodeLower (replace_prefix (js ''unknown'') ident))
      else (\<exists>digits. encodeName unicodeLower ident = js ''hex'' @ digits
                    \<and> list_all isLowerHexDigit digits))"
proof -
  have "list_all isLowerAlnum (toString_hex buf)" for buf
    using toString_hex_digits [of buf] by (simp add: list_all_iff lower_hex_alnum)
  then have "list_all isLowerAlnum (js ''hex'' @ toString_hex (utf8_encode ident))"
    using hex_marker_alnum by simp
  moreover have "list_all isLowerAlnum (convertName unicodeLower s)" for s
    by (simp add: convertName_def list_all_iff)
  ultimately have "list_all isLowerAlnum (encodeName unicodeLower ident)"
    by (simp add: encodeName_def)
  moreover have "\<exists>digits. js ''hex'' @ toString_hex (utf8_encode ident) = js ''hex'' @ digits
                    \<and> list_all isLowerHexDigit digits"
    using toString_hex_digits by blast
  ultimately show ?thesis
    by (simp add: encodeName_def convertName_def)
qed

theorem encodeName_legal_witness:
  "list_all isLowerAlnum (encodeName (\<lambda>s. s) (js ''Some_User~Job-1''))
   \<and> list_all isLowerAlnum (encodeName (\<lambda>s. s) (js ''Legacy Job #7''))
   \<and> encodeName (\<lambda>s. s) (js ''Legacy Job #7'') = js ''legacyjob7''"
  using encodeName_legal [of "\<lambda>s. s" "js ''Some_User~Job-1''"]
    encodeName_legal [of "\<lambda>s. s" "js ''Legacy Job #7''"]
  by (simp add: js_def startsWith_def str_includes_def replace_prefix_def toLowerCase_def
      isAscii_def asciiLower_def isLowerAlnum_def)

section \<open>State mapper\<close>

text \<open>
  C2: \<open>convertState\<close> is a total function into the five job states, which are five
  different strings; \<open>Completed\<close> with exit code 0 is \<open>SUCCEEDED\<close> and with any other
  exit code (\<open>null\<close> included) \<open>FAILED\<close>; \<open>AttemptRunning\<close> is \<open>RUNNING\<close> and
  \<open>AttemptCreationPending\<close> is \<open>WAITING\<close> for every exit code; a state string that the
  function does not list is \<open>UNKNOWN\<close>.
\<close>

theorem convertState_table:
  "convertState st exitCode
     \<in> set [js ''WAITING'', js ''RUNNING'', js ''SUCCEEDED'', js ''FAILED'', js ''UNKNOWN'']
   \<and> distinct [js ''WAITING'', js ''RUNNING'', js ''SUCCEEDED'', js ''FAILED'', js ''UNKNOWN'']
   \<and> convertState (js ''Completed'') (Some 0) = js ''SUCCEEDED''
   \<and> (exitCode \<noteq> Some 0 \<longrightarrow> convertState (js ''Completed'') exitCode = js ''FAILED'')
   \<and> convertState (js ''AttemptRunning'') exitCode = js ''RUNNING''
   \<and> convertState (js ''AttemptCreationPending'') exitCode = js ''WAITING''
   \<and> (st \<notin> set knownStates \<longrightarrow> convertState st exitCode = js ''UNKNOWN'')"
proof -
  have d: "distinct [js ''WAITING'', js ''RUNNING'', js ''SUCCEEDED'', js ''FAILED'', js ''UNKNOWN'']"
    by (simp add: js_def)
  have c: "js ''Completed''
             \<notin> set [js ''AttemptCreationPending'', js ''AttemptCreationRequested'',
                    js ''AttemptPreparing'', js ''AttemptRunning'', js ''AttemptDeletionPending'',
                    js ''AttemptDeletionRequested'', js ''AttemptDeleting'', js ''AttemptCompleted'']"
    by (simp add: js_def)
  have r: "js ''AttemptRunning''
             \<notin> set [js ''AttemptCreationPending'', js ''AttemptCreationRequested'',
                    js ''AttemptPreparing'']"
    by (simp add: js_def)
  have 1: "convertState st exitCode
             \<in> set [js ''WAITING'', js ''RUNNING'', js ''SUCCEEDED'', js ''FAILED'', js ''UNKNOWN'']"
    by (simp add: convertState_def)
  have 2: "convertState (js ''Completed'') (Some 0) = js ''SUCCEEDED''"
    using c by (simp add: convertState_def)
  have 3: "exitCode \<noteq> Some 0 \<longrightarrow> convertState (js ''Completed'') exitCode = js ''FAILED''"
    using c by (simp add: convertState_def)
  have 4: "convertState (js ''AttemptRunning'') exitCode = js ''RUNNING''"
    using r by (simp add: convertState_def)
  have 5: "convertState (js ''AttemptCreationPending'') exitCode = js ''WAITING''"
    by (simp add: convertState_def)
  have 6: "st \<notin> set knownStates \<longrightarrow> convertState st exitCode = js ''UNKNOWN''"
    by (simp add: convertState_def knownStates_def)
  from d 1 2 3 4 5 6 show ?thesis by blast
qed

theorem convertState_table_witness:
  "convertState (js ''Completed'') (Some 1) = js ''FAILED''
   \<and> convertState (js ''Completed'') None = js ''FAILED''
   \<and> convertState (js ''AttemptRetrying'') (Some 0) = js ''UNKNOWN''"
  using convertState_table [of "js ''AttemptRetrying''" "Some 0"]
    convertState_table [of "js ''AttemptRetrying''" "Some 1"]
    convertState_table [of "js ''AttemptRetrying''" None]
  by (simp add: js_def knownStates_def)

section \<open>Workload spec builder: retry and completion policies\<close>

lemma or_default_zero: "or_default x 0 = (case x of None \<Rightarrow> 0 | Some n \<Rightarrow> n)"
  by (simp add: or_default_def split: option.splits)

lemma generateTaskRoles_total:
  assumes "\<And>k. k \<in> set ks \<Longrightarrow> \<exists>tr. generateTaskRole lower k lbls config = Inr tr"
  shows "\<exists>trs. generateTaskRoles lower ks lbls config = Inr trs"
  using assms
proof (induction ks)
  case Nil
  then show ?case by simp
next
  case (Cons k ks)
  then obtain tr where "generateTaskRole lower k lbls config = Inr tr" by auto
  moreover from Cons obtain trs where "generateTaskRoles lower ks lbls config = Inr trs" by auto
  ultimately show ?case by simp
qed

lemma generateTaskRole_total:
  assumes "images_declared config" "k \<in> set (map fst (taskRoles config))"
  shows "\<exists>tr. generateTaskRole lower k lbls config = Inr tr"
proof -
  from assms(2) obtain r where r: "map_of (taskRoles config) k = Some r"
    by (metis map_of_eq_None_iff not_Some_eq set_map)
  then have "(k, r) \<in> set (taskRoles config)" by (rule map_of_SomeD)
  with assms(1) obtain uri where "map_of (prerequisites_dockerimage config) (dockerImage r) = Some uri"
    by (auto simp: images_declared_def list_all_iff)
  with r show ?thesis by (simp add: generateTaskRole_def)
qed

text \<open>
  C3: in every framework description that \<open>generateFrameworkDescription\<close> builds, the
  job-level retry policy has \<open>fancyRetryPolicy\<close> false exactly when \<open>jobRetryCount\<close> is
  \<open>-2\<close> (true for every other value, 0 and a missing count included), and
  \<open>maxRetryCount\<close> is \<open>jobRetryCount\<close>, or 0 when the count is missing. A description is
  built whenever every task role's docker image is declared in the prerequisites.
\<close>

theorem generateFrameworkDescription_retryPolicy:
  "(\<forall>d. generateFrameworkDescription lower api frameworkName vc config rawConfig = Inr d \<longrightarrow>
         fancyRetryPolicy (fd_spec_retryPolicy d) = (jobRetryCount config \<noteq> Some (- 2))
       \<and> maxRetryCount (fd_spec_retryPolicy d)
           = (case jobRetryCount config of None \<Rightarrow> 0 | Some n \<Rightarrow> n))
   \<and> (images_declared config \<longrightarrow>
        (\<exists>d. generateFrameworkDescription lower api frameworkName vc config rawConfig = Inr d))"
proof -
  let ?labels = "\<lparr> label_jobName = at_index (split_tilde frameworkName) 1,
                    label_userName = at_index (split_tilde frameworkName) 0,
                    label_virtualCluster = vc \<rparr>"
  have built: "\<exists>d. generateFrameworkDescription lower api frameworkName vc config rawConfig = Inr d"
    if declared: "images_declared config"
  proof -
    have "\<exists>trs. generateTaskRoles lower (map fst (taskRoles config)) ?labels config = Inr trs"
      by (rule generateTaskRoles_total) (rule generateTaskRole_total [OF declared])
    then obtain trs where
      "generateTaskRoles lower (map fst (taskRoles config)) ?labels config = Inr trs" ..
    then show ?thesis
      by (simp add: generateFrameworkDescription_def Let_def)
  qed
  have policy: "fancyRetryPolicy (fd_spec_retryPolicy d) = (jobRetryCount config \<noteq> Some (- 2))
       \<and> maxRetryCount (fd_spec_retryPolicy d)
           = (case jobRetryCount config of None \<Rightarrow> 0 | Some n \<Rightarrow> n)"
    if "generateFrameworkDescription lower api frameworkName vc config rawConfig = Inr d" for d
    using that
    by (auto simp: generateFrameworkDescription_def Let_def or_default_zero split: sum.splits)
  from built policy show ?thesis by blast
qed

lemma images_declared_example: "images_declared exampleConfig"
  by (simp add: images_declared_def exampleConfig_def js_def)

theorem generateFrameworkDescription_retryPolicy_witness:
  "map_sum (\<lambda>e. e) fd_spec_retryPolicy
     (generateFrameworkDescription (\<lambda>s. s) (js ''v1'') (js ''user~job'') (js ''default'')
        exampleConfig (js ''jobRetryCount: -2''))
     = Inr \<lparr> fancyRetryPolicy = False, maxRetryCount = - 2 \<rparr>
   \<and> map_sum (\<lambda>e. e) fd_spec_retryPolicy
     (generateFrameworkDescription (\<lambda>s. s) (js ''v1'') (js ''user~job'') (js ''default'')
        (exampleConfig \<lparr> jobRetryCount := None \<rparr>) (js ''''))
     = Inr \<lparr> fancyRetryPolicy = True, maxRetryCount = 0 \<rparr>"
proof -
  have "images_declared (exampleConfig \<lparr> jobRetryCount := None \<rparr>)"
    using images_declared_example by (simp add: images_declared_def)
  then show ?thesis
    using images_declared_example
      generateFrameworkDescription_retryPolicy [of "\<lambda>s. s" "js ''v1''" "js ''user~job''"
        "js ''default''" exampleConfig "js ''jobRetryCount: -2''"]
      generateFrameworkDescription_retryPolicy [of "\<lambda>s. s" "js ''v1''" "js ''user~job''"
        "js ''default''" "exampleConfig \<lparr> jobRetryCount := None \<rparr>" "js ''''"]
    by (auto simp: exampleConfig_def)
qed

text \<open>
  C4: for every task role of the configuration whose docker image is declared,
  \<open>generateTaskRole\<close> returns a task role; without a \<open>completion\<close> key its completion
  policy is \<open>{minFailedTaskCount: 1, minSucceededTaskCount: -1}\<close>, and with one the two
  counts are \<open>minFailedInstances\<close> and \<open>minSucceededInstances\<close>, each missing field
  falling back to the same default.
\<close>

theorem generateTaskRole_completion_policy:
  assumes "map_of (taskRoles config) taskRole = Some role"
    and "map_of (prerequisites_dockerimage config) (dockerImage role) = Some uri"
  shows "\<exists>tr. generateTaskRole lower taskRole lbls config = Inr tr
          \<and> (completion role = None \<longrightarrow>
                frameworkAttemptCompletionPolicy tr
                  = \<lparr> minFailedTaskCount = 1, minSucceededTaskCount = - 1 \<rparr>)
          \<and> (\<forall>c. completion role = Some c \<longrightarrow>
                minFailedTaskCount (frameworkAttemptCompletionPolicy tr)
                  = (case minFailedInstances c of Some n \<Rightarrow> n | None \<Rightarrow> 1)
              \<and> minSucceededTaskCount (frameworkAttemptCompletionPolicy tr)
                  = (case minSucceededInstances c of Some n \<Rightarrow> n | None \<Rightarrow> - 1))"
  using assms by (auto simp: generateTaskRole_def)

theorem generateTaskRole_completion_policy_witness:
  "map_sum (\<lambda>e. e) (\<lambda>tr. (taskNumber tr, frameworkAttemptCompletionPolicy tr))
     (generateTaskRole (\<lambda>s. s) (js ''worker'')
        \<lparr> label_jobName = Some (js ''job''), label_userName = Some (js ''user''),
          label_virtualCluster = js ''default'' \<rparr> exampleConfig)
     = Inr (3, \<lparr> minFailedTaskCount = 1, minSucceededTaskCount = - 1 \<rparr>)
   \<and> map_sum (\<lambda>e. e) frameworkAttemptCompletionPolicy
     (generateTaskRole (\<lambda>s. s) (js ''ps'')
        \<lparr> label_jobName = Some (js ''job''), label_userName = Some (js ''user''),
          label_virtualCluster = js ''default'' \<rparr> exampleConfig)
     = Inr \<lparr> minFailedTaskCount = 2, minSucceededTaskCount = - 1 \<rparr>"
  using generateTaskRole_completion_policy [of exampleConfig "js ''worker''"
      "\<lparr> instances = Some 3, dockerImage = js ''image'', completion = None \<rparr>" "js ''example/image:1''"
      "\<lambda>s. s"
      "\<lparr> label_jobName = Some (js ''job''), label_userName = Some (js ''user''),
          label_virtualCluster = js ''default'' \<rparr>"]
    generateTaskRole_completion_policy [of exampleConfig "js ''ps''"
      "\<lparr> instances = None, dockerImage = js ''image'',
                       completion = Some \<lparr> minFailedInstances = Some 2,
                                           minSucceededInstances = None \<rparr> \<rparr>" "js ''example/image:1''"
      "\<lambda>s. s"
      "\<lparr> label_jobName = Some (js ''job''), label_userName = Some (js ''user''),
          label_virtualCluster = js ''default'' \<rparr>"]
  by (auto simp: exampleConfig_def js_def or_default_def generateTaskRole_def)

section \<open>User model: create if absent\<close>

text \<open>
  C9: \<open>createUserIfNonExistent\<close> first reads the user. When the read succeeds, the read
  is the only call and the engine is left as the read left it. When the read throws
  an error with status 404, the user is created: the calls are the read and the
  create, and what the create throws, if it throws, is thrown on. When the read throws any
  other error, that error is thrown on unchanged and the read is the only call.
\<close>

theorem createUserIfNonExistent_cases:
  "(\<forall>found s1. crud_read crud uname (engine w) = (Inr found, s1) \<longrightarrow>
       createUserIfNonExistent crud uname v w
         = (Inr (), \<lparr> engine = s1, calls = calls w @ [ReadCall uname] \<rparr>))
   \<and> (\<forall>e s1 r s2. crud_read crud uname (engine w) = (Inl e, s1) \<and> error_status e = Some 404
          \<and> crud_create crud uname v s1 = (r, s2) \<longrightarrow>
       createUserIfNonExistent crud uname v w
         = (map_sum (\<lambda>thrown. thrown) (\<lambda>created. ()) r,
            \<lparr> engine = s2, calls = calls w @ [ReadCall uname, CreateCall uname v] \<rparr>))
   \<and> (\<forall>e s1. crud_read crud uname (engine w) = (Inl e, s1) \<and> error_status e \<noteq> Some 404 \<longrightarrow>
       createUserIfNonExistent crud uname v w
         = (Inl e, \<lparr> engine = s1, calls = calls w @ [ReadCall uname] \<rparr>))"
  by (auto simp: createUserIfNonExistent_def getUser_def createUser_def split: sum.splits)

theorem createUserIfNonExistent_cases_witness:
  "createUserIfNonExistent memoryStore (js ''alice'') 7 \<lparr> engine = [], calls = [] \<rparr>
     = (Inr (), \<lparr> engine = [(js ''alice'', 7)],
                  calls = [ReadCall (js ''alice''), CreateCall (js ''alice'') 7] \<rparr>)
   \<and> createUserIfNonExistent memoryStore (js ''alice'') 9
        \<lparr> engine = [(js ''alice'', 7)], calls = [] \<rparr>
     = (Inr (), \<lparr> engine = [(js ''alice'', 7)], calls = [ReadCall (js ''alice'')] \<rparr>)
   \<and> createUserIfNonExistent brokenStore (js ''alice'') 7 \<lparr> engine = [], calls = [] \<rparr>
     = (Inl \<lparr> error_status = Some 500, error_text = js ''InternalError'' \<rparr>,
        \<lparr> engine = [], calls = [ReadCall (js ''alice'')] \<rparr>)"
  using createUserIfNonExistent_cases [of memoryStore "js ''alice''" "\<lparr> engine = [], calls = [] \<rparr>" 7]
    createUserIfNonExistent_cases [of memoryStore "js ''alice''"
      "\<lparr> engine = [(js ''alice'', 7)], calls = [] \<rparr>" 9]
    createUserIfNonExistent_cases [of brokenStore "js ''alice''" "\<lparr> engine = [], calls = [] \<rparr>" 7]
  by (simp add: memoryStore_def brokenStore_def)

section \<open>Controller client: the order of list\<close>

lemma mset_sort_insert: "mset (sort_insert f x ys) = add_mset x (mset ys)"
  by (induction ys) simp_all

lemma mset_array_sort: "mset (array_sort f xs) = mset xs"
  by (induction xs) (simp_all add: array_sort_def mset_sort_insert)

lemma set_sort_insert: "set (sort_insert f x ys) = insert x (set ys)"
  by (induction ys) auto

lemma set_array_sort: "set (array_sort f xs) = set xs"
  using mset_array_sort [of f xs] by (metis set_mset_mset)

lemma descending_sort_insert:
  assumes "createdTime x \<noteq> None" "list_all (\<lambda>y. createdTime y \<noteq> None) ys" "descending ys"
  shows "descending (sort_insert byCreatedTime x ys)"
  using assms
proof (induction ys)
  case Nil
  then show ?case by (simp add: descending_def)
next
  case (Cons y ys)
  then obtain tx ty where t: "createdTime x = Some tx" "createdTime y = Some ty" by auto
  from Cons have rest: "descending (sort_insert byCreatedTime x ys)"
    by (simp add: descending_def)
  show ?case
  proof (cases "sorts_after byCreatedTime x y")
    case True
    then have "tx < ty" using t by (simp add: sorts_after_def byCreatedTime_def)
    then have "js_ge (createdTime y) (createdTime x)" using t by (simp add: js_ge_def)
    with True Cons.prems(3) rest show ?thesis
      by (auto simp: descending_def set_sort_insert)
  next
    case False
    then have le: "ty \<le> tx" using t by (simp add: sorts_after_def byCreatedTime_def)
    have "js_ge (createdTime x) (createdTime z)" if "js_ge (createdTime y) (createdTime z)" for z
      using that t le by (auto simp: js_ge_def split: option.splits)
    moreover have "js_ge (createdTime x) (createdTime y)" using t le by (simp add: js_ge_def)
    ultimately show ?thesis
      using False Cons.prems(3) by (auto simp: descending_def)
  qed
qed

lemma descending_array_sort:
  "list_all (\<lambda>y. createdTime y \<noteq> None) xs \<Longrightarrow> descending (array_sort byCreatedTime xs)"
proof (induction xs)
  case Nil
  then show ?case by (simp add: array_sort_def descending_def)
next
  case (Cons x xs)
  then have "descending (array_sort byCreatedTime xs)" by simp
  moreover have "list_all (\<lambda>y. createdTime y \<noteq> None) (array_sort byCreatedTime xs)"
    using Cons.prems by (simp add: list_all_iff set_array_sort)
  ultimately have "descending (sort_insert byCreatedTime x (array_sort byCreatedTime xs))"
    using Cons.prems by (intro descending_sort_insert) simp_all
  then show ?case by (simp add: array_sort_def)
qed

lemma createdTime_convert: "createdTime (convertFrameworkSummary upper f) = startTime f"
  by (simp add: convertFrameworkSummary_def)

lemma descending_times:
  assumes "descending xs" "list_all (\<lambda>y. createdTime y \<noteq> None) xs"
  shows "sorted (rev (map (\<lambda>y. the (createdTime y)) xs))"
  using assms
  by (induction xs) (auto simp: descending_def js_ge_def sorted_append split: option.splits)

lemma three_times:
  assumes "descending xs" "list_all (\<lambda>y. createdTime y \<noteq> None) xs"
    and "mset (map createdTime xs) = {#Some t1, Some t2, Some t3#}" "t1 < t2" "t2 < t3"
  shows "map createdTime xs = [Some t3, Some t2, Some t1]"
proof -
  let ?ts = "map (\<lambda>y. the (createdTime y)) xs"
  have some: "map createdTime xs = map Some ?ts"
    using assms(2) by (induction xs) auto
  have "mset (map Some ?ts) = mset (map Some [t1, t2, t3])"
    using assms(3) some by simp
  then have "mset ?ts = mset [t1, t2, t3]"
    by (metis (no_types, lifting) inj_Some mset_map multiset.inj_map_strong option.inject)
  then have "mset (rev ?ts) = mset [t1, t2, t3]" by simp
  moreover have "sorted (rev ?ts)" using assms(1,2) by (rule descending_times)
  ultimately have "sort [t1, t2, t3] = rev ?ts" by (intro properties_for_sort) simp_all
  moreover have "sort [t1, t2, t3] = [t1, t2, t3]" using assms(4,5) by simp
  ultimately have "?ts = [t3, t2, t1]" by (metis rev.simps rev_rev_ident append.simps rev_swap)
  with some show ?thesis by simp
qed

text \<open>
  C5, as stated, fails: a start time that is missing or not a date becomes \<open>NaN\<close>, and
  \<open>NaN\<close> is \<open>>=\<close> nothing. For a list response of two workloads, the first started
  at 1000 and the second without a valid start time, every comparison yields \<open>NaN\<close>,
  the sort leaves the order as it is, and the result is not descending.
\<close>

theorem list_op_nan_not_descending:
  "(case fst (list_op exampleLauncher (\<lambda>s. s)
        (respond 200 (ItemsBody [exampleFramework (js ''a'') (Some 1000) None,
                                     exampleFramework (js ''b'') None None]))) of
      Inr result \<Rightarrow> map createdTime result = [Some 1000, None] \<and> \<not> descending result
    | Inl e \<Rightarrow> False)"
  by (simp add: list_op_def respond_def await_response_def exampleLauncher_def Let_def
      exampleFramework_def array_sort_def sorts_after_def byCreatedTime_def
      convertFrameworkSummary_def descending_def js_ge_def)

text \<open>A list of two or more summaries with a \<open>NaN\<close> time is descending in no order.\<close>

lemma nan_not_descending:
  assumes "None \<in> set (map createdTime xs)" "2 \<le> length xs"
  shows "\<not> descending xs"
proof
  assume d: "descending xs"
  from assms(1) obtain i where i: "i < length xs" "createdTime (xs ! i) = None"
    by (auto simp: in_set_conv_nth)
  have "(if i = 0 then 1 else 0) < length xs \<and> (if i = 0 then 1 else 0) \<noteq> i"
    using assms(2) by (cases xs) auto
  then obtain j where j: "j < length xs" "j \<noteq> i" by blast
  have ordered: "js_ge (createdTime (xs ! a)) (createdTime (xs ! b))"
    if "a < b" "b < length xs" for a b
    using d that by (simp add: descending_def sorted_wrt_iff_nth_less)
  show False
  proof (cases "i < j")
    case True
    then have "js_ge (createdTime (xs ! i)) (createdTime (xs ! j))"
      using j(1) by (rule ordered)
    with i(2) show False by (simp add: js_ge_def)
  next
    case False
    with j(2) have "j < i" by simp
    then have "js_ge (createdTime (xs ! j)) (createdTime (xs ! i))"
      using i(1) by (rule ordered)
    with i(2) show False by (simp add: js_ge_def split: option.splits)
  qed
qed

text \<open>
  C5, amended: for every list response with status 200 in which every workload has a
  valid start time, \<open>list\<close> returns the converted summaries (the same summaries, as a
  multiset) in descending order of \<open>createdTime\<close>: every earlier element's time is
  \<open>>=\<close> every later one's, and three workloads with times \<open>t1 < t2 < t3\<close>, in whatever
  order the controller lists them, come out as \<open>[t3, t2, t1]\<close>.
\<close>

theorem list_op_descending:
  assumes "await_response (axios \<lparr> http_method = js ''get'', url = frameworksPath cfg,
                                    headers = requestHeaders cfg, req_data = None \<rparr>) = Inr r"
    and "status r = 200"
    and "data r = ItemsBody items"
    and "list_all (\<lambda>f. startTime f \<noteq> None) items"
  shows "\<exists>result. fst (list_op cfg upper axios) = Inr result
           \<and> descending result
           \<and> mset result = mset (map (convertFrameworkSummary upper) items)
           \<and> (\<forall>t1 t2 t3. mset (map startTime items) = {#Some t1, Some t2, Some t3#}
                  \<and> t1 < t2 \<and> t2 < t3
                \<longrightarrow> map createdTime result = [Some t3, Some t2, Some t1])"
proof -
  let ?summaries = "map (convertFrameworkSummary upper) items"
  let ?result = "array_sort byCreatedTime ?summaries"
  have valid: "list_all (\<lambda>y. createdTime y \<noteq> None) ?summaries"
    using assms(4) by (simp add: list_all_iff createdTime_convert)
  then have valid': "list_all (\<lambda>y. createdTime y \<noteq> None) ?result"
    by (simp add: list_all_iff set_array_sort)
  have res: "fst (list_op cfg upper axios) = Inr ?result"
    using assms(1,2,3) by (simp add: list_op_def Let_def)
  have desc: "descending ?result"
    using valid by (rule descending_array_sort)
  have perm: "mset ?result = mset ?summaries"
    by (rule mset_array_sort)
  have times: "mset (map createdTime ?result) = mset (map startTime items)"
  proof -
    have "mset (map createdTime ?result) = image_mset createdTime (mset ?summaries)"
      using perm by (metis mset_map)
    then show ?thesis by (simp add: comp_def createdTime_convert multiset.map_comp)
  qed
  have "map createdTime ?result = [Some t3, Some t2, Some t1]"
    if "mset (map startTime items) = {#Some t1, Some t2, Some t3#}" "t1 < t2" "t2 < t3"
    for t1 t2 t3
    using desc valid' that times by (intro three_times) simp_all
  with res desc perm show ?thesis by blast
qed

theorem list_op_descending_witness:
  "map_sum (\<lambda>e. e) (map createdTime)
     (fst (list_op exampleLauncher (\<lambda>s. s)
        (respond 200 (ItemsBody [exampleFramework (js ''a'') (Some 1000) None,
                                     exampleFramework (js ''b'') (Some 3000) None,
                                     exampleFramework (js ''c'') (Some 2000) None]))))
     = Inr [Some 3000, Some 2000, Some 1000]"
  using list_op_descending [of "respond 200 (ItemsBody [exampleFramework (js ''a'') (Some 1000) None,
                                     exampleFramework (js ''b'') (Some 3000) None,
                                     exampleFramework (js ''c'') (Some 2000) None])"
      exampleLauncher
      "\<lparr> status = 200, data = ItemsBody [exampleFramework (js ''a'') (Some 1000) None,
                                     exampleFramework (js ''b'') (Some 3000) None,
                                     exampleFramework (js ''c'') (Some 2000) None] \<rparr>"
      "[exampleFramework (js ''a'') (Some 1000) None,
                                     exampleFramework (js ''b'') (Some 3000) None,
                                     exampleFramework (js ''c'') (Some 2000) None]" "\<lambda>s. s"]
  by (simp add: list_op_def respond_def await_response_def exampleLauncher_def Let_def
      exampleFramework_def array_sort_def sorts_after_def byCreatedTime_def
      convertFrameworkSummary_def)

section \<open>Controller client: errors of the by-name operations\<close>

text \<open>
  C6: when the controller answers the request of \<open>get\<close> with status 404, \<open>get\<close> throws
  the \<open>NoJobError\<close> built from \<open>'Not Found'\<close>, whose message holds the framework name as
  the caller passed it (the encoded name goes into the URL only); on any other status
  but 200 it throws the \<open>UnknownError\<close> built from the response's status and the
  message of its body.
\<close>

theorem get_not_found:
  assumes "await_response
             (axios \<lparr> http_method = js ''get'',
                      url = frameworkPath cfg (encodeName lower frameworkName),
                      headers = requestHeaders cfg, req_data = None \<rparr>) = Inr r"
  shows "(status r = 404 \<longrightarrow>
            fst (get cfg lower upper axios frameworkName)
              = Inl (createError (StatusName (js ''Not Found'')) (js ''NoJobError'')
                       (Some (js ''Job '' @ frameworkName @ js '' is not found.''))))
       \<and> (status r \<noteq> 200 \<and> status r \<noteq> 404 \<longrightarrow>
            fst (get cfg lower upper axios frameworkName)
              = Inl (createError (StatusCode (status r)) (js ''UnknownError'')
                       (data_message (data r))))"
  using assms by (simp add: get_def Let_def)

theorem get_not_found_witness:
  "get exampleLauncher (\<lambda>s. s) (\<lambda>s. s) (respond 404 (MessageBody (Some (js ''no such framework''))))
     (js ''user~job'')
     = (Inl (createError (StatusName (js ''Not Found'')) (js ''NoJobError'')
               (Some (js ''Job user~job is not found.''))),
        [\<lparr> http_method = js ''get'', url = js ''/frameworks/hex757365727e6a6f62'',
            headers = [(js ''Accept'', js ''application/json'')], req_data = None \<rparr>])
   \<and> fst (get exampleLauncher (\<lambda>s. s) (\<lambda>s. s) (respond 503 (MessageBody (Some (js ''overloaded''))))
          (js ''user~job''))
     = Inl (createError (StatusCode 503) (js ''UnknownError'') (Some (js ''overloaded'')))"
  using get_not_found [of "respond 404 (MessageBody (Some (js ''no such framework'')))"
      exampleLauncher "\<lambda>s. s" "js ''user~job''"
      "\<lparr> status = 404, data = MessageBody (Some (js ''no such framework'')) \<rparr>" "\<lambda>s. s"]
    get_not_found [of "respond 503 (MessageBody (Some (js ''overloaded'')))"
      exampleLauncher "\<lambda>s. s" "js ''user~job''"
      "\<lparr> status = 503, data = MessageBody (Some (js ''overloaded'')) \<rparr>" "\<lambda>s. s"]
  by (simp add: get_def respond_def await_response_def exampleLauncher_def Let_def
      data_message_def js_def encodeName_def startsWith_def str_includes_def
      toString_hex_def hexDigit_def utf8_unit_def utf8_bytes_def isHighSurrogate_def)

text \<open>
  C7, as stated, fails in its last part: the source tests the stored text for truth,
  and the empty string is falsy. A framework whose annotations hold a \<open>config\<close> entry
  with empty text makes \<open>getConfig\<close> throw \<open>NoJobConfigError\<close> instead of returning the
  parse of that text.
\<close>

theorem getConfig_empty_config:
  "annotations_config (exampleFramework (js ''hex757365727e6a6f62'') (Some 1000)
       (Some [(js ''config'', [])])) = Some []
   \<and> fst (getConfig exampleLauncher (\<lambda>s. s) (\<lambda>stored. Inr stored)
          (respond 200 (FrameworkBody (exampleFramework (js ''hex757365727e6a6f62'') (Some 1000)
             (Some [(js ''config'', [])]))))
          (js ''user~job''))
     = Inl (createError (StatusName (js ''Not Found'')) (js ''NoJobConfigError'')
              (Some (js ''Config of job user~job is not found.'')))"
  by (simp add: getConfig_def respond_def await_response_def exampleLauncher_def Let_def
      exampleFramework_def annotations_config_def js_def)

text \<open>
  C7, amended: a response with status 200 whose framework has no \<open>config\<close> annotation
  (or no annotations) makes \<open>getConfig\<close> throw \<open>NoJobConfigError\<close>; a response with
  status 404 makes it throw \<open>NoJobError\<close>, a different error code; and when the
  \<open>config\<close> annotation is there and its text is not empty, \<open>getConfig\<close> returns what
  the parser makes of exactly that text.
\<close>

theorem getConfig_outcomes:
  assumes "await_response
             (axios \<lparr> http_method = js ''get'',
                      url = frameworkPath cfg (encodeName lower frameworkName),
                      headers = requestHeaders cfg, req_data = None \<rparr>) = Inr r"
  shows "(\<forall>f. status r = 200 \<and> data r = FrameworkBody f \<and> annotations_config f = None \<longrightarrow>
            fst (getConfig cfg lower safeLoad axios frameworkName)
              = Inl (createError (StatusName (js ''Not Found'')) (js ''NoJobConfigError'')
                       (Some (js ''Config of job '' @ frameworkName @ js '' is not found.''))))
       \<and> (status r = 404 \<longrightarrow>
            fst (getConfig cfg lower safeLoad axios frameworkName)
              = Inl (createError (StatusName (js ''Not Found'')) (js ''NoJobError'')
                       (Some (js ''Job '' @ frameworkName @ js '' is not found.''))))
       \<and> js ''NoJobConfigError'' \<noteq> js ''NoJobError''
       \<and> (\<forall>f stored. status r = 200 \<and> data r = FrameworkBody f
              \<and> annotations_config f = Some stored \<and> stored \<noteq> [] \<longrightarrow>
            fst (getConfig cfg lower safeLoad axios frameworkName) = safeLoad stored)"
  using assms by (simp add: getConfig_def Let_def js_def)

theorem getConfig_outcomes_witness:
  "fst (getConfig exampleLauncher (\<lambda>s. s) (\<lambda>stored. Inr stored)
          (respond 200 (FrameworkBody (exampleFramework (js ''hex757365727e6a6f62'') (Some 1000)
             (Some [(js ''other'', js ''x'')]))))
          (js ''user~job''))
     = Inl (createError (StatusName (js ''Not Found'')) (js ''NoJobConfigError'')
              (Some (js ''Config of job user~job is not found.'')))
   \<and> fst (getConfig exampleLauncher (\<lambda>s. s) (\<lambda>stored. Inr stored)
          (respond 404 (MessageBody None)) (js ''user~job''))
     = Inl (createError (StatusName (js ''Not Found'')) (js ''NoJobError'')
              (Some (js ''Job user~job is not found.'')))
   \<and> fst (getConfig exampleLauncher (\<lambda>s. s) (\<lambda>stored. Inr stored)
          (respond 200 (FrameworkBody (exampleFramework (js ''hex757365727e6a6f62'') (Some 1000)
             (Some [(js ''config'', js ''jobRetryCount: 1'')]))))
          (js ''user~job''))
     = Inr (js ''jobRetryCount: 1'')"
  using getConfig_outcomes [of
      "respond 200 (FrameworkBody (exampleFramework (js ''hex757365727e6a6f62'') (Some 1000)
             (Some [(js ''other'', js ''x'')])))"
      exampleLauncher "\<lambda>s. s" "js ''user~job''"
      "\<lparr> status = 200, data = FrameworkBody (exampleFramework (js ''hex757365727e6a6f62'')
             (Some 1000) (Some [(js ''other'', js ''x'')])) \<rparr>" "\<lambda>stored. Inr stored"]
    getConfig_outcomes [of "respond 404 (MessageBody None)"
      exampleLauncher "\<lambda>s. s" "js ''user~job''"
      "\<lparr> status = 404, data = MessageBody None \<rparr>" "\<lambda>stored. Inr stored"]
    getConfig_outcomes [of
      "respond 200 (FrameworkBody (exampleFramework (js ''hex757365727e6a6f62'') (Some 1000)
             (Some [(js ''config'', js ''jobRetryCount: 1'')])))"
      exampleLauncher "\<lambda>s. s" "js ''user~job''"
      "\<lparr> status = 200, data = FrameworkBody (exampleFramework (js ''hex757365727e6a6f62'')
             (Some 1000) (Some [(js ''config'', js ''jobRetryCount: 1'')])) \<rparr>" "\<lambda>stored. Inr stored"]
  by (simp add: getConfig_def respond_def await_response_def exampleLauncher_def Let_def
      exampleFramework_def annotations_config_def js_def)

section \<open>Controller client: the request of execute\<close>

text \<open>
  C8, as stated, fails: the source takes the first character as it is
  (\<open>executionType.charAt(0)\<close>) and lower-cases the rest. For the execution type
  \<open>stop\<close> the value sent is \<open>stop\<close>, where the first letter capitalized gives \<open>Stop\<close>.
\<close>

theorem execute_stop_not_capitalized:
  "snd (execute exampleLauncher (\<lambda>s. s) (respond 200 (MessageBody None))
          (js ''user~job'') (js ''stop''))
     = [\<lparr> http_method = js ''patch'', url = js ''/frameworks/hex757365727e6a6f62'',
          headers = [(js ''Content-Type'', js ''application/merge-patch+json'')],
          req_data = Some (JObject [(js ''spec'',
                       JObject [(js ''executionType'', JString (js ''stop''))])]) \<rparr>]
   \<and> capitalized_spec (\<lambda>s. s) (\<lambda>s. s) (js ''stop'') = js ''Stop''
   \<and> js ''stop'' \<noteq> js ''Stop''"
  by (simp add: execute_def respond_def await_response_def exampleLauncher_def Let_def
      js_def encodeName_def startsWith_def str_includes_def toLowerCase_def toUpperCase_def
      isAscii_def asciiLower_def asciiUpper_def capitalized_spec_def
      toString_hex_def hexDigit_def utf8_unit_def utf8_bytes_def isHighSurrogate_def)

text \<open>
  C8, amended: for every job name and execution type, \<open>execute\<close> sends one request, a
  \<open>patch\<close> with content type \<open>application/merge-patch+json\<close> whose body is the object
  \<open>{spec: {executionType: v}}\<close> and nothing else; \<open>v\<close> is the first character of the
  input unchanged, followed by the rest lower-cased. This is the capitalized input
  exactly when the first character is its own upper case, as in \<open>STOP\<close> or \<open>Stop\<close>.
\<close>

theorem execute_patch:
  "snd (execute cfg lower axios frameworkName t)
     = [\<lparr> http_method = js ''patch'',
          url = frameworkPath cfg (encodeName lower frameworkName),
          headers = [(js ''Content-Type'', js ''application/merge-patch+json'')],
          req_data = Some (JObject [(js ''spec'',
                       JObject [(js ''executionType'',
                                 JString (take 1 t @ toLowerCase lower (drop 1 t)))])]) \<rparr>]
   \<and> (list_all isAscii t \<longrightarrow>
        take 1 t @ toLowerCase lower (drop 1 t) = take 1 t @ map asciiLower (drop 1 t))
   \<and> (take 1 t @ toLowerCase lower (drop 1 t) = capitalized_spec upper lower t
        \<longleftrightarrow> toUpperCase upper (take 1 t) = take 1 t)"
proof -
  have "list_all isAscii (drop 1 t)" if "list_all isAscii t"
    using that by (auto simp: list_all_iff dest: in_set_dropD)
  then show ?thesis
    by (auto simp: execute_def Let_def capitalized_spec_def toLowerCase_def)
qed

theorem execute_patch_witness:
  "snd (execute exampleLauncher (\<lambda>s. s) (respond 200 (MessageBody None))
          (js ''user~job'') (js ''STOP''))
     = [\<lparr> http_method = js ''patch'', url = js ''/frameworks/hex757365727e6a6f62'',
          headers = [(js ''Content-Type'', js ''application/merge-patch+json'')],
          req_data = Some (JObject [(js ''spec'',
                       JObject [(js ''executionType'', JString (js ''Stop''))])]) \<rparr>]
   \<and> capitalized_spec (\<lambda>s. s) (\<lambda>s. s) (js ''STOP'') = js ''Stop''"
  using execute_patch [of exampleLauncher "\<lambda>s. s" "respond 200 (MessageBody None)"
      "js ''user~job''" "js ''STOP''" "\<lambda>s. s"]
  by (simp add: exampleLauncher_def
      js_def encodeName_def startsWith_def str_includes_def toLowerCase_def toUpperCase_def
      isAscii_def asciiLower_def asciiUpper_def capitalized_spec_def
      toString_hex_def hexDigit_def utf8_unit_def utf8_bytes_def isHighSurrogate_def)

end
